theory Spec2Isabelle
  imports Main
begin

section \<open>Data model of \<open>src/plugin.ts\<close>\<close>

text \<open>
  The plugin class \<open>ModuleFederationTypesPlugin\<close> has one method, \<open>apply\<close>. It reads its
  own options, the process environment and the options of the webpack compiler, decides
  whether to do anything at all, and then downloads remote types, compiles the types of the
  exposed modules, or registers a callback on the compiler's \<open>afterEmit\<close> hook which
  compiles on every build and keeps one interval timer that downloads again.

  Everything the method does to the outside (logger calls, calls of the helpers
  \<open>downloadTypes\<close>, \<open>compileTypes\<close> and \<open>rewritePathsWithExposedFederatedModules\<close>,
  \<open>tap\<close>, \<open>setInterval\<close>, \<open>clearInterval\<close>) is recorded, in program order, in a
  trace. An awaited call is one event: the statement after \<open>await\<close> runs when the call has
  completed.
\<close>

datatype webpack_mode = Development | Production | NoMode

text \<open>\<open>this.options\<close>; every field may be missing, and so may the object itself.\<close>

record ModuleFederationTypesPluginOptions =
  disableTypeCompilation :: "bool option"
  disableDownladingRemoteTypes :: "bool option"
  downloadTypesWhenIdleIntervalInSeconds :: "int option"

text \<open>
  The \<open>_options\<close> of the \<open>ModuleFederationPlugin\<close>. The source casts \<open>exposes\<close> to
  \<open>string[]\<close> and \<open>remotes\<close> to \<open>Record<string, string>\<close>; both are objects when
  present, hence truthy.
\<close>

record ModuleFederationPluginOptions =
  name :: "string option"
  exposes :: "string list option"
  remotes :: "(string \<times> string) list option"

record plugin =
  constructor_name :: string
  plugin_options :: "ModuleFederationPluginOptions option"

record staticOptions =
  directory :: "string option"

record devServerOptions =
  static :: "staticOptions option"

record outputOptions =
  path :: "string option"

text \<open>\<open>compiler.options\<close>, as far as \<open>apply\<close> reads it.\<close>

record compilerOptions =
  mode :: "webpack_mode option"
  plugins :: "plugin list"
  devServer :: "devServerOptions option"
  output_opts :: "outputOptions option"

text \<open>
  What one call of \<open>apply\<close> reads: \<open>this.options\<close>, \<open>compiler.options\<close>,
  \<open>process.env.DEPLOYMENT_ENV\<close> and the value returned by
  \<open>getRemoteManifestUrls(this.options)\<close> (a helper outside this file; its result is taken
  as it comes).
\<close>

record input =
  options :: "ModuleFederationTypesPluginOptions option"
  compiler :: compilerOptions
  DEPLOYMENT_ENV :: "string option"
  remoteManifestUrls :: "(string \<times> string) list option"

record compileResult =
  isSuccess :: bool
  typeDefinitions :: string

text \<open>
  The imported helpers and constants whose text is outside this file are parameters: the
  check of one URL, the compiler of type declarations (its result may differ from call to
  call, so it takes the number of the call), the logger hint, \<open>path.join\<close> of the platform,
  and three constants of \<open>./constants\<close>.
\<close>

record collaborators =
  isValidUrl :: "string \<Rightarrow> bool"
  compileTypes :: "nat \<Rightarrow> string list option \<Rightarrow> string \<Rightarrow> compileResult"
  getLoggerHint :: "compilerOptions \<Rightarrow> string"
  path_join :: "string list \<Rightarrow> string"
  CLOUDBEDS_DEPLOYMENT_ENV_WITH_DISABLED_REMOTE_TYPES_DOWNLOAD :: string
  DIR_DIST :: string
  DIR_EMITTED_TYPES :: string

datatype logArg =
    Str string
  | Urls "(string \<times> string) list option"
  | Num int
  | DateNow
  | Hint string

datatype event =
    Warn "logArg list"
  | Log "logArg list"
  | DownloadTypes "(string \<times> string) list option" "(string \<times> string) list option"
  | CompileTypes "string list option" string
  | RewritePaths ModuleFederationPluginOptions string string
  | TapAfterEmit string
  | ClearInterval "nat option"
  | SetInterval nat int

text \<open>
  The variables a callback created in \<open>apply\<close> captures: the federation options (with
  \<open>exposes\<close> and \<open>remotes\<close>) and \<open>outFile\<close>. (\<open>this.options\<close>, the compiler and the
  manifest URLs are captured too; they are the \<open>input\<close>, passed along.)
\<close>

record closure =
  federationPluginOptions :: ModuleFederationPluginOptions
  outFile :: string

text \<open>
  The mutable state: the trace, the variable \<open>recompileIntervalId\<close> (undefined at first),
  the interval timers of the host that are alive (handle and callback), the next fresh
  handle, the number of calls of \<open>compileTypes\<close> so far, and the callback tapped on
  \<open>compiler.hooks.afterEmit\<close>, if any.
\<close>

record world =
  trace :: "event list"
  recompileIntervalId :: "nat option"
  timers :: "(nat \<times> closure) list"
  nextTimerId :: nat
  compileCalls :: nat
  afterEmitTap :: "closure option"

definition init_world :: world where
  "init_world = \<lparr>trace = [], recompileIntervalId = None, timers = [], nextTimerId = 0,
     compileCalls = 0, afterEmitTap = None\<rparr>"

definition emit :: "event \<Rightarrow> world \<Rightarrow> world" where
  "emit e w = w\<lparr>trace := trace w @ [e]\<rparr>"

section \<open>Constants and helpers\<close>

definition PLUGIN_NAME :: string where
  "PLUGIN_NAME = ''ModuleFederationTypesPlugin''"

text \<open>
  Modelled from the spec: the constant \<open>DEFAULT_DOWNLOAD_TYPES_INTERVAL_IN_SECONDS\<close> of
  \<open>./constants\<close>, a file that is not at hand. The spec gives "default 60"; the comment
  at line 85 of the source ("redownload types every 60 seconds") agrees.
\<close>

definition DEFAULT_DOWNLOAD_TYPES_INTERVAL_IN_SECONDS :: int where
  "DEFAULT_DOWNLOAD_TYPES_INTERVAL_IN_SECONDS = 60"

text \<open>
  Modelled from the spec: \<open>isEveryUrlValid\<close> of \<open>./helpers/validation\<close>, a file that is not
  at hand. "Each URL is validated; if any configured URL is invalid, the resolver signals
  an invalid-configuration condition": the helper holds iff every URL passes the check of
  one URL, which stays a parameter.
\<close>

definition isEveryUrlValid :: "(string \<Rightarrow> bool) \<Rightarrow> string list \<Rightarrow> bool" where
  "isEveryUrlValid valid urls = list_all valid urls"

text \<open>\<open>Object.values(remoteManifestUrls || {})\<close>\<close>

definition Object_values :: "(string \<times> string) list option \<Rightarrow> string list" where
  "Object_values m = (case m of None \<Rightarrow> [] | Some kvs \<Rightarrow> map snd kvs)"

text \<open>
  JavaScript's \<open>a || b\<close> on a string that may be undefined: the empty string is falsy.
  \<open>a || b || c\<close> is \<open>(a || b) || c\<close>, which takes the first truthy operand, as the nested
  form does.
\<close>

definition js_or_string :: "string option \<Rightarrow> string \<Rightarrow> string" where
  "js_or_string a b = (case a of None \<Rightarrow> b | Some v \<Rightarrow> if v \<noteq> [] then v else b)"

text \<open>\<open>a || b\<close> on a number that may be undefined: zero is falsy.\<close>

definition js_or_number :: "int option \<Rightarrow> int \<Rightarrow> int" where
  "js_or_number a b = (case a of None \<Rightarrow> b | Some v \<Rightarrow> if v \<noteq> 0 then v else b)"

text \<open>Truthiness of a boolean that may be undefined.\<close>

definition truthy :: "bool option \<Rightarrow> bool" where
  "truthy b = (case b of None \<Rightarrow> False | Some v \<Rightarrow> v)"

text \<open>\<open>this.options?.f\<close>\<close>

definition opt :: "('o \<Rightarrow> 'a option) \<Rightarrow> 'o option \<Rightarrow> 'a option" where
  "opt f os = (case os of None \<Rightarrow> None | Some x \<Rightarrow> f x)"

section \<open>The method \<open>apply\<close>, piece by piece\<close>

text \<open>Line 29: \<open>!!this.options?.disableTypeCompilation\<close>\<close>

definition isCompilationDisabled :: "input \<Rightarrow> bool" where
  "isCompilationDisabled inp = truthy (opt disableTypeCompilation (options inp))"

text \<open>Lines 30-31: the option if it is there (\<open>??\<close>), else the test of the environment.\<close>

definition isDownloadDisabled :: "collaborators \<Rightarrow> input \<Rightarrow> bool" where
  "isDownloadDisabled K inp =
     (case opt disableDownladingRemoteTypes (options inp) of
        Some b \<Rightarrow> b
      | None \<Rightarrow>
          DEPLOYMENT_ENV inp = Some (CLOUDBEDS_DEPLOYMENT_ENV_WITH_DISABLED_REMOTE_TYPES_DOWNLOAD K))"

text \<open>Lines 47-50: the first plugin whose constructor is named \<open>ModuleFederationPlugin\<close>,
  and its \<open>_options\<close>.\<close>

definition findFederationPluginOptions :: "compilerOptions \<Rightarrow> ModuleFederationPluginOptions option" where
  "findFederationPluginOptions c =
     (case find (\<lambda>p. constructor_name p = ''ModuleFederationPlugin'') (plugins c) of
        None \<Rightarrow> None
      | Some p \<Rightarrow> plugin_options p)"

text \<open>Line 51: \<open>!federationPluginOptions?.name\<close>\<close>

definition nameMissing :: "ModuleFederationPluginOptions option \<Rightarrow> bool" where
  "nameMissing f = (case opt name f of None \<Rightarrow> True | Some n \<Rightarrow> n = [])"

text \<open>Line 58\<close>

definition distPath :: "collaborators \<Rightarrow> compilerOptions \<Rightarrow> string" where
  "distPath K c =
     js_or_string (opt directory (opt static (devServer c)))
       (js_or_string (opt path (output_opts c)) (DIR_DIST K))"

text \<open>Line 59\<close>

definition computeOutFile :: "collaborators \<Rightarrow> compilerOptions \<Rightarrow> string" where
  "computeOutFile K c = path_join K [distPath K c, DIR_EMITTED_TYPES K, ''index.d.ts'']"

text \<open>Lines 62-69\<close>

definition compileTypesHook :: "collaborators \<Rightarrow> input \<Rightarrow> closure \<Rightarrow> world \<Rightarrow> world" where
  "compileTypesHook K inp cl w =
     (let fed = federationPluginOptions cl;
          r = compileTypes K (compileCalls w) (exposes fed) (outFile cl);
          w1 = emit (CompileTypes (exposes fed) (outFile cl)) (w\<lparr>compileCalls := Suc (compileCalls w)\<rparr>)
      in if isSuccess r
         then emit (RewritePaths fed (outFile cl) (typeDefinitions r)) w1
         else emit (Warn [Str ''Failed to compile types for exposed modules.'',
                          Hint (getLoggerHint K (compiler inp))]) w1)"

text \<open>Lines 72-74\<close>

definition downloadTypesHook :: "input \<Rightarrow> closure \<Rightarrow> world \<Rightarrow> world" where
  "downloadTypesHook inp cl w =
     emit (DownloadTypes (remotes (federationPluginOptions cl)) (remoteManifestUrls inp)) w"

text \<open>Lines 79-80\<close>

definition shouldSyncContinuously :: "input \<Rightarrow> bool" where
  "shouldSyncContinuously inp =
     (mode (compiler inp) = Some Development
      \<and> opt downloadTypesWhenIdleIntervalInSeconds (options inp) \<noteq> Some (- 1))"

text \<open>Lines 81-82\<close>

definition effectiveInterval :: "input \<Rightarrow> int" where
  "effectiveInterval inp =
     js_or_number (opt downloadTypesWhenIdleIntervalInSeconds (options inp))
       DEFAULT_DOWNLOAD_TYPES_INTERVAL_IN_SECONDS"

text \<open>The condition of lines 86 and 103: \<open>remotes && !this.options?.disableDownladingRemoteTypes\<close>\<close>

definition remotesAndNotDisabled :: "input \<Rightarrow> closure \<Rightarrow> bool" where
  "remotesAndNotDisabled inp cl =
     (remotes (federationPluginOptions cl) \<noteq> None
      \<and> \<not> truthy (opt disableDownladingRemoteTypes (options inp)))"

text \<open>The host's timers: \<open>clearInterval\<close> of undefined does nothing; \<open>setInterval\<close> returns
  a fresh handle.\<close>

definition clearInterval :: "nat option \<Rightarrow> world \<Rightarrow> world" where
  "clearInterval h w =
     (case h of
        None \<Rightarrow> emit (ClearInterval None) w
      | Some i \<Rightarrow> emit (ClearInterval (Some i)) (w\<lparr>timers := filter (\<lambda>t. fst t \<noteq> i) (timers w)\<rparr>))"

definition setInterval :: "closure \<Rightarrow> int \<Rightarrow> world \<Rightarrow> nat \<times> world" where
  "setInterval cl ms w =
     (let i = nextTimerId w
      in (i, emit (SetInterval i ms) (w\<lparr>timers := timers w @ [(i, cl)], nextTimerId := Suc i\<rparr>)))"

text \<open>Lines 89-95: the callback of the timer. \<open>downloadTypesHook()\<close> is not awaited.\<close>

definition timerCallback :: "input \<Rightarrow> closure \<Rightarrow> world \<Rightarrow> world" where
  "timerCallback inp cl w =
     downloadTypesHook inp cl
       (emit (Log [DateNow, Str ''Downloading types every'', Num (effectiveInterval inp),
                   Str ''seconds'']) w)"

text \<open>Lines 84-101\<close>

definition compileTypesContinuouslyHook :: "collaborators \<Rightarrow> input \<Rightarrow> closure \<Rightarrow> world \<Rightarrow> world" where
  "compileTypesContinuouslyHook K inp cl w =
     (let w1 =
        (if remotesAndNotDisabled inp cl
         then (let w2 = clearInterval (recompileIntervalId w) w;
                   (i, w3) = setInterval cl (1000 * effectiveInterval inp) w2
               in w3\<lparr>recompileIntervalId := Some i\<rparr>)
         else w)
      in compileTypesHook K inp cl w1)"

text \<open>Lines 110-113: the callback tapped on \<open>afterEmit\<close>.\<close>

definition afterEmitCallback :: "collaborators \<Rightarrow> input \<Rightarrow> closure \<Rightarrow> world \<Rightarrow> world" where
  "afterEmitCallback K inp cl w =
     compileTypesContinuouslyHook K inp cl
       (emit (Log [Str ''Compiling types on afterEmit event'']) w)"

text \<open>Lines 24-119\<close>

definition plugin_apply :: "collaborators \<Rightarrow> input \<Rightarrow> world \<Rightarrow> world" where
  "plugin_apply K inp w =
     (if \<not> isEveryUrlValid (isValidUrl K) (Object_values (remoteManifestUrls inp)) then
        emit (Log [Str ''Plugin disabled''])
          (emit (Warn [Str ''One or more remote manifest URLs are invalid:'',
                       Urls (remoteManifestUrls inp)]) w)
      else if isCompilationDisabled inp \<and> isDownloadDisabled K inp then
        emit (Log [Str ''Plugin disabled as both type compilation and download features are turned off'']) w
      else if nameMissing (findFederationPluginOptions (compiler inp)) then
        emit (Log [Str ''Plugin disabled as ModuleFederationPlugin is not configured properly. The `name` option is missing.'']) w
      else
        (case findFederationPluginOptions (compiler inp) of
           None \<Rightarrow> w
         | Some fed \<Rightarrow>
            (let cl = \<lparr>federationPluginOptions = fed, outFile = computeOutFile K (compiler inp)\<rparr>;
                 w1 = (if remotesAndNotDisabled inp cl
                       then downloadTypesHook inp cl (emit (Log [Str ''Downloading types on startup'']) w)
                       else w)
             in if exposes fed \<noteq> None \<and> \<not> isCompilationDisabled inp then
                  (if shouldSyncContinuously inp
                   then emit (TapAfterEmit PLUGIN_NAME) (w1\<lparr>afterEmitTap := Some cl\<rparr>)
                   else compileTypesHook K inp cl (emit (Log [Str ''Compile types on startup only'']) w1))
                else w1)))"

section \<open>The life of the process after \<open>apply\<close>\<close>

text \<open>
  After \<open>apply\<close> two things can happen, in any order and any number of times: the compiler
  finishes a build and calls the callbacks tapped on \<open>afterEmit\<close>, or the interval of the
  timers elapses and the host calls the callback of every timer that is alive.
\<close>

datatype signal = AfterEmit | IntervalElapsed

definition fireTimers :: "input \<Rightarrow> world \<Rightarrow> world" where
  "fireTimers inp w = foldl (\<lambda>v t. timerCallback inp (snd t) v) w (timers w)"

fun fire :: "collaborators \<Rightarrow> input \<Rightarrow> world \<Rightarrow> signal \<Rightarrow> world" where
  "fire K inp w AfterEmit =
     (case afterEmitTap w of None \<Rightarrow> w | Some cl \<Rightarrow> afterEmitCallback K inp cl w)"
| "fire K inp w IntervalElapsed = fireTimers inp w"

definition lifetime :: "collaborators \<Rightarrow> input \<Rightarrow> signal list \<Rightarrow> world" where
  "lifetime K inp sigs = foldl (fire K inp) (plugin_apply K inp init_world) sigs"

text \<open>Observations on a trace.\<close>

fun isDownload :: "event \<Rightarrow> bool" where
  "isDownload (DownloadTypes r u) = True"
| "isDownload e = False"

fun isCompile :: "event \<Rightarrow> bool" where
  "isCompile (CompileTypes e f) = True"
| "isCompile e = False"

fun isRewrite :: "event \<Rightarrow> bool" where
  "isRewrite (RewritePaths f p d) = True"
| "isRewrite e = False"

fun isTap :: "event \<Rightarrow> bool" where
  "isTap (TapAfterEmit n) = True"
| "isTap e = False"

fun isSetInterval :: "event \<Rightarrow> bool" where
  "isSetInterval (SetInterval i ms) = True"
| "isSetInterval e = False"

definition downloads :: "event list \<Rightarrow> nat" where
  "downloads tr = length (filter isDownload tr)"

definition compiles :: "event list \<Rightarrow> nat" where
  "compiles tr = length (filter isCompile tr)"

text \<open>
  The state of the scheduler is sound when the timers alive are exactly the one the
  variable \<open>recompileIntervalId\<close> holds, or none while it is undefined.
\<close>

definition singleTimer :: "world \<Rightarrow> bool" where
  "singleTimer w =
     (case recompileIntervalId w of
        None \<Rightarrow> timers w = []
      | Some i \<Rightarrow> map fst (timers w) = [i])"

text \<open>
  The three conditions under which \<open>apply\<close> goes past its early returns (lines 34, 41
  and 51): every manifest URL is valid, not both features are turned off, and the federation
  plugin is there with a name that is not empty.
\<close>

definition gatePasses :: "collaborators \<Rightarrow> input \<Rightarrow> bool" where
  "gatePasses K inp =
     (isEveryUrlValid (isValidUrl K) (Object_values (remoteManifestUrls inp))
      \<and> \<not> (isCompilationDisabled inp \<and> isDownloadDisabled K inp)
      \<and> \<not> nameMissing (findFederationPluginOptions (compiler inp)))"

text \<open>A string that may be undefined is set when it is there and not empty (truthy).\<close>

definition isSet :: "string option \<Rightarrow> bool" where
  "isSet s = (case s of None \<Rightarrow> False | Some v \<Rightarrow> v \<noteq> [])"

text \<open>Every compile so far, and every compile the tapped callback will make, writes to \<open>f\<close>.\<close>

definition compilesInto :: "string \<Rightarrow> world \<Rightarrow> bool" where
  "compilesInto f w =
     ((case afterEmitTap w of None \<Rightarrow> True | Some cl \<Rightarrow> outFile cl = f)
      \<and> list_all (\<lambda>e. case e of CompileTypes x g \<Rightarrow> g = f | _ \<Rightarrow> True) (trace w))"

section \<open>Example configurations\<close>

text \<open>
  Collaborators for the examples: a URL is taken as valid when it starts with \<open>http://\<close>,
  the second call of the compiler fails and the others succeed, and paths are joined with
  a slash.
\<close>

definition example_join :: "string list \<Rightarrow> string" where
  "example_join segs = foldr (\<lambda>a b. if b = [] then a else a @ ''/'' @ b) segs []"

definition example_collaborators :: collaborators where
  "example_collaborators =
     \<lparr>isValidUrl = (\<lambda>u. take 7 u = ''http://''),
      compileTypes = (\<lambda>k e f. \<lparr>isSuccess = (k \<noteq> 1), typeDefinitions = ''declare module''\<rparr>),
      getLoggerHint = (\<lambda>c. ''hint''),
      path_join = example_join,
      CLOUDBEDS_DEPLOYMENT_ENV_WITH_DISABLED_REMOTE_TYPES_DOWNLOAD = ''devbox'',
      DIR_DIST = ''dist'',
      DIR_EMITTED_TYPES = ''types''\<rparr>"

definition example_federation :: ModuleFederationPluginOptions where
  "example_federation =
     \<lparr>name = Some ''app1'',
      exposes = Some [''./Button''],
      remotes = Some [(''app2'', ''app2@http://x/remoteEntry.js'')]\<rparr>"

definition example_compiler :: "webpack_mode \<Rightarrow> compilerOptions" where
  "example_compiler m =
     \<lparr>mode = Some m,
      plugins = [\<lparr>constructor_name = ''HtmlWebpackPlugin'', plugin_options = None\<rparr>,
                 \<lparr>constructor_name = ''ModuleFederationPlugin'',
                  plugin_options = Some example_federation\<rparr>],
      devServer = None,
      output_opts = Some \<lparr>path = Some ''/srv/build''\<rparr>\<rparr>"

text \<open>Interactive mode, no plugin options at all, one remote with a valid manifest URL.\<close>

definition example_input :: input where
  "example_input =
     \<lparr>options = None,
      compiler = example_compiler Development,
      DEPLOYMENT_ENV = None,
      remoteManifestUrls = Some [(''app2'', ''http://x/manifest.json'')]\<rparr>"

text \<open>The same in a one-shot build.\<close>

definition example_production :: input where
  "example_production = example_input\<lparr>compiler := example_compiler Production\<rparr>"

text \<open>The same with the environment variable set to the marker.\<close>

definition example_marked_env :: input where
  "example_marked_env = example_input\<lparr>DEPLOYMENT_ENV := Some ''devbox''\<rparr>"

text \<open>The one-shot build with the environment variable set to the marker.\<close>

definition example_marked_production :: input where
  "example_marked_production = example_production\<lparr>DEPLOYMENT_ENV := Some ''devbox''\<rparr>"

text \<open>The same with a manifest URL that is not a URL.\<close>

definition example_bad_url :: input where
  "example_bad_url = example_input\<lparr>remoteManifestUrls := Some [(''app2'', ''not-a-url'')]\<rparr>"

text \<open>The same with the interval option set to the sentinel.\<close>

definition example_sentinel :: input where
  "example_sentinel =
     example_input\<lparr>options := Some \<lparr>disableTypeCompilation = None,
        disableDownladingRemoteTypes = None,
        downloadTypesWhenIdleIntervalInSeconds = Some (- 1)\<rparr>\<rparr>"

text \<open>The same with an interval of five seconds and a dev-server static directory.\<close>

definition example_dev_server :: input where
  "example_dev_server =
     example_input\<lparr>options := Some \<lparr>disableTypeCompilation = None,
        disableDownladingRemoteTypes = Some False,
        downloadTypesWhenIdleIntervalInSeconds = Some 5\<rparr>,
      compiler := (example_compiler Development)\<lparr>devServer :=
        Some \<lparr>static = Some \<lparr>directory = Some ''/srv/public''\<rparr>\<rparr>\<rparr>\<rparr>"

section \<open>Unfolding the examples\<close>

lemmas example_defs = example_join_def example_collaborators_def example_federation_def
  example_compiler_def example_input_def example_production_def example_marked_env_def
  example_marked_production_def example_bad_url_def example_sentinel_def example_dev_server_def

lemmas model_defs = plugin_apply_def lifetime_def init_world_def emit_def isEveryUrlValid_def Object_values_def
  js_or_string_def js_or_number_def truthy_def opt_def isCompilationDisabled_def isDownloadDisabled_def
  findFederationPluginOptions_def nameMissing_def distPath_def computeOutFile_def compileTypesHook_def
  downloadTypesHook_def shouldSyncContinuously_def effectiveInterval_def remotesAndNotDisabled_def
  clearInterval_def setInterval_def timerCallback_def compileTypesContinuouslyHook_def afterEmitCallback_def
  fireTimers_def downloads_def compiles_def singleTimer_def PLUGIN_NAME_def DEFAULT_DOWNLOAD_TYPES_INTERVAL_IN_SECONDS_def
  gatePasses_def isSet_def

section \<open>What each piece adds to the trace and changes in the state\<close>

lemma trace_emit [simp]: "trace (emit e w) = trace w @ [e]"
  by (simp add: emit_def)

lemma emit_fields [simp]:
  "recompileIntervalId (emit e w) = recompileIntervalId w"
  "timers (emit e w) = timers w"
  "nextTimerId (emit e w) = nextTimerId w"
  "compileCalls (emit e w) = compileCalls w"
  "afterEmitTap (emit e w) = afterEmitTap w"
  by (simp_all add: emit_def)

lemma downloads_append [simp]: "downloads (xs @ ys) = downloads xs + downloads ys"
  by (simp add: downloads_def)

lemma compiles_append [simp]: "compiles (xs @ ys) = compiles xs + compiles ys"
  by (simp add: compiles_def)

lemma compileTypesHook_trace:
  "trace (compileTypesHook K inp cl w) =
     trace w @ [CompileTypes (exposes (federationPluginOptions cl)) (outFile cl),
       if isSuccess (compileTypes K (compileCalls w) (exposes (federationPluginOptions cl)) (outFile cl))
       then RewritePaths (federationPluginOptions cl) (outFile cl)
              (typeDefinitions (compileTypes K (compileCalls w) (exposes (federationPluginOptions cl)) (outFile cl)))
       else Warn [Str ''Failed to compile types for exposed modules.'', Hint (getLoggerHint K (compiler inp))]]"
  by (simp add: compileTypesHook_def Let_def)

lemma compileTypesHook_fields [simp]:
  "recompileIntervalId (compileTypesHook K inp cl w) = recompileIntervalId w"
  "timers (compileTypesHook K inp cl w) = timers w"
  "nextTimerId (compileTypesHook K inp cl w) = nextTimerId w"
  "compileCalls (compileTypesHook K inp cl w) = Suc (compileCalls w)"
  "afterEmitTap (compileTypesHook K inp cl w) = afterEmitTap w"
  by (simp_all add: compileTypesHook_def Let_def)

lemma downloadTypesHook_trace [simp]:
  "trace (downloadTypesHook inp cl w) =
     trace w @ [DownloadTypes (remotes (federationPluginOptions cl)) (remoteManifestUrls inp)]"
  by (simp add: downloadTypesHook_def)

lemma downloadTypesHook_fields [simp]:
  "recompileIntervalId (downloadTypesHook inp cl w) = recompileIntervalId w"
  "timers (downloadTypesHook inp cl w) = timers w"
  "nextTimerId (downloadTypesHook inp cl w) = nextTimerId w"
  "compileCalls (downloadTypesHook inp cl w) = compileCalls w"
  "afterEmitTap (downloadTypesHook inp cl w) = afterEmitTap w"
  by (simp_all add: downloadTypesHook_def)

lemma timerCallback_trace:
  "trace (timerCallback inp cl w) =
     trace w @ [Log [DateNow, Str ''Downloading types every'', Num (effectiveInterval inp), Str ''seconds''],
                DownloadTypes (remotes (federationPluginOptions cl)) (remoteManifestUrls inp)]"
  by (simp add: timerCallback_def)

lemma timerCallback_fields [simp]:
  "recompileIntervalId (timerCallback inp cl w) = recompileIntervalId w"
  "timers (timerCallback inp cl w) = timers w"
  "nextTimerId (timerCallback inp cl w) = nextTimerId w"
  "compileCalls (timerCallback inp cl w) = compileCalls w"
  "afterEmitTap (timerCallback inp cl w) = afterEmitTap w"
  by (simp_all add: timerCallback_def)

lemma foldl_timerCallback_fields:
  "recompileIntervalId (foldl (\<lambda>v t. timerCallback inp (snd t) v) w ts) = recompileIntervalId w
   \<and> timers (foldl (\<lambda>v t. timerCallback inp (snd t) v) w ts) = timers w
   \<and> nextTimerId (foldl (\<lambda>v t. timerCallback inp (snd t) v) w ts) = nextTimerId w
   \<and> compileCalls (foldl (\<lambda>v t. timerCallback inp (snd t) v) w ts) = compileCalls w
   \<and> afterEmitTap (foldl (\<lambda>v t. timerCallback inp (snd t) v) w ts) = afterEmitTap w"
  by (induction ts arbitrary: w) simp_all

lemma foldl_timerCallback_trace:
  "trace (foldl (\<lambda>v t. timerCallback inp (snd t) v) w ts) =
     trace w @ concat (map (\<lambda>t.
       [Log [DateNow, Str ''Downloading types every'', Num (effectiveInterval inp), Str ''seconds''],
        DownloadTypes (remotes (federationPluginOptions (snd t))) (remoteManifestUrls inp)]) ts)"
  by (induction ts arbitrary: w) (simp_all add: timerCallback_trace)

lemma fireTimers_fields [simp]:
  "recompileIntervalId (fireTimers inp w) = recompileIntervalId w"
  "timers (fireTimers inp w) = timers w"
  "nextTimerId (fireTimers inp w) = nextTimerId w"
  "compileCalls (fireTimers inp w) = compileCalls w"
  "afterEmitTap (fireTimers inp w) = afterEmitTap w"
  by (simp_all add: fireTimers_def foldl_timerCallback_fields)

lemma fireTimers_trace:
  "trace (fireTimers inp w) =
     trace w @ concat (map (\<lambda>t.
       [Log [DateNow, Str ''Downloading types every'', Num (effectiveInterval inp), Str ''seconds''],
        DownloadTypes (remotes (federationPluginOptions (snd t))) (remoteManifestUrls inp)]) (timers w))"
  by (simp add: fireTimers_def foldl_timerCallback_trace)

lemma downloads_concat_timer:
  "downloads (concat (map (\<lambda>t. [Log (l t), DownloadTypes (r t) (u t)]) ts)) = length ts"
  by (induction ts) (simp_all add: downloads_def)

lemma compiles_concat_timer:
  "compiles (concat (map (\<lambda>t. [Log (l t), DownloadTypes (r t) (u t)]) ts)) = 0"
  by (induction ts) (simp_all add: compiles_def)

lemma fireTimers_downloads:
  "downloads (trace (fireTimers inp w)) = downloads (trace w) + length (timers w)"
  by (simp add: fireTimers_trace downloads_concat_timer)

lemma fireTimers_compiles:
  "compiles (trace (fireTimers inp w)) = compiles (trace w)"
  by (simp add: fireTimers_trace compiles_concat_timer)

lemma hook_trace:
  "trace (compileTypesContinuouslyHook K inp cl w) =
     trace w
     @ (if remotesAndNotDisabled inp cl
        then [ClearInterval (recompileIntervalId w),
              SetInterval (nextTimerId w) (1000 * effectiveInterval inp)]
        else [])
     @ [CompileTypes (exposes (federationPluginOptions cl)) (outFile cl),
        if isSuccess (compileTypes K (compileCalls w) (exposes (federationPluginOptions cl)) (outFile cl))
        then RewritePaths (federationPluginOptions cl) (outFile cl)
              (typeDefinitions (compileTypes K (compileCalls w) (exposes (federationPluginOptions cl)) (outFile cl)))
        else Warn [Str ''Failed to compile types for exposed modules.'', Hint (getLoggerHint K (compiler inp))]]"
  by (simp add: compileTypesContinuouslyHook_def compileTypesHook_trace clearInterval_def
        setInterval_def Let_def split: option.splits)

lemma hook_fields:
  "afterEmitTap (compileTypesContinuouslyHook K inp cl w) = afterEmitTap w"
  "compileCalls (compileTypesContinuouslyHook K inp cl w) = Suc (compileCalls w)"
  "recompileIntervalId (compileTypesContinuouslyHook K inp cl w) =
     (if remotesAndNotDisabled inp cl then Some (nextTimerId w) else recompileIntervalId w)"
  "timers (compileTypesContinuouslyHook K inp cl w) =
     (if remotesAndNotDisabled inp cl
      then (case recompileIntervalId w of None \<Rightarrow> timers w
            | Some i \<Rightarrow> filter (\<lambda>t. fst t \<noteq> i) (timers w)) @ [(nextTimerId w, cl)]
      else timers w)"
  by (simp_all add: compileTypesContinuouslyHook_def clearInterval_def
        setInterval_def Let_def split: option.splits)

section \<open>Signals after start-up\<close>

lemma fireTimers_idle: "timers w = [] \<Longrightarrow> fireTimers inp w = w"
  by (simp add: fireTimers_def)

lemma afterEmitCallback_trace:
  "trace (afterEmitCallback K inp cl w) =
     trace w @ Log [Str ''Compiling types on afterEmit event'']
     # (if remotesAndNotDisabled inp cl
        then [ClearInterval (recompileIntervalId w),
              SetInterval (nextTimerId w) (1000 * effectiveInterval inp)]
        else [])
     @ [CompileTypes (exposes (federationPluginOptions cl)) (outFile cl),
        if isSuccess (compileTypes K (compileCalls w) (exposes (federationPluginOptions cl)) (outFile cl))
        then RewritePaths (federationPluginOptions cl) (outFile cl)
              (typeDefinitions (compileTypes K (compileCalls w) (exposes (federationPluginOptions cl)) (outFile cl)))
        else Warn [Str ''Failed to compile types for exposed modules.'', Hint (getLoggerHint K (compiler inp))]]"
  by (simp add: afterEmitCallback_def hook_trace)

lemma afterEmitCallback_fields:
  "afterEmitTap (afterEmitCallback K inp cl w) = afterEmitTap w"
  "compileCalls (afterEmitCallback K inp cl w) = Suc (compileCalls w)"
  "recompileIntervalId (afterEmitCallback K inp cl w) =
     (if remotesAndNotDisabled inp cl then Some (nextTimerId w) else recompileIntervalId w)"
  "timers (afterEmitCallback K inp cl w) =
     (if remotesAndNotDisabled inp cl
      then (case recompileIntervalId w of None \<Rightarrow> timers w
            | Some i \<Rightarrow> filter (\<lambda>t. fst t \<noteq> i) (timers w)) @ [(nextTimerId w, cl)]
      else timers w)"
  by (simp_all add: afterEmitCallback_def hook_fields split: option.splits)

lemma afterEmitCallback_compiles:
  "compiles (trace (afterEmitCallback K inp cl w)) = Suc (compiles (trace w))"
  by (simp add: afterEmitCallback_trace) (simp add: compiles_def)

lemma afterEmitCallback_downloads:
  "downloads (trace (afterEmitCallback K inp cl w)) = downloads (trace w)"
  by (simp add: afterEmitCallback_trace) (simp add: downloads_def)

lemma filter_single_timer:
  "map fst ts = [i] \<Longrightarrow> filter (\<lambda>t. fst t \<noteq> i) ts = []"
  by (cases ts) auto

lemma afterEmitCallback_singleTimer:
  "singleTimer w \<Longrightarrow> singleTimer (afterEmitCallback K inp cl w)"
  by (auto simp: singleTimer_def afterEmitCallback_fields filter_single_timer split: option.splits)

lemma afterEmitCallback_armed:
  "singleTimer w \<Longrightarrow> remotesAndNotDisabled inp cl \<Longrightarrow>
     timers (afterEmitCallback K inp cl w) = [(nextTimerId w, cl)]"
  by (auto simp: singleTimer_def afterEmitCallback_fields filter_single_timer split: option.splits)

lemma fire_tap [simp]: "afterEmitTap (fire K inp w s) = afterEmitTap w"
  by (cases s) (simp_all add: afterEmitCallback_fields split: option.splits)

lemma fireTimers_singleTimer: "singleTimer (fireTimers inp w) = singleTimer w"
  by (simp add: singleTimer_def split: option.splits)

lemma fire_singleTimer: "singleTimer w \<Longrightarrow> singleTimer (fire K inp w s)"
proof (cases s)
  case AfterEmit
  assume "singleTimer w"
  with AfterEmit show ?thesis
    by (cases "afterEmitTap w") (simp_all add: afterEmitCallback_singleTimer)
next
  case IntervalElapsed
  assume "singleTimer w"
  with IntervalElapsed show ?thesis
    by (simp add: fireTimers_singleTimer)
qed

lemma fire_grows: "\<exists>more. trace (fire K inp w s) = trace w @ more"
  by (cases s) (simp_all add: afterEmitCallback_trace fireTimers_trace split: option.splits)

lemma run_tap [simp]: "afterEmitTap (foldl (fire K inp) w sigs) = afterEmitTap w"
  by (induction sigs arbitrary: w) simp_all

lemma run_singleTimer: "singleTimer w \<Longrightarrow> singleTimer (foldl (fire K inp) w sigs)"
  by (induction sigs arbitrary: w) (simp_all add: fire_singleTimer)

lemma run_grows: "\<exists>more. trace (foldl (fire K inp) w sigs) = trace w @ more"
proof (induction sigs arbitrary: w)
  case Nil
  show ?case by simp
next
  case (Cons s sigs)
  obtain m1 where m1: "trace (fire K inp w s) = trace w @ m1"
    using fire_grows by blast
  obtain m2 where "trace (foldl (fire K inp) (fire K inp w s) sigs) = trace (fire K inp w s) @ m2"
    using Cons.IH by blast
  with m1 show ?case by simp
qed

lemma run_idle:
  "afterEmitTap w = None \<Longrightarrow> timers w = [] \<Longrightarrow> foldl (fire K inp) w sigs = w"
proof (induction sigs)
  case Nil
  show ?case by simp
next
  case (Cons s sigs)
  have "fire K inp w s = w"
    using Cons.prems by (cases s) (simp_all add: fireTimers_idle)
  with Cons show ?case by simp
qed

lemma singleTimer_length: "singleTimer w \<Longrightarrow> length (timers w) \<le> 1"
  by (auto simp: singleTimer_def split: option.splits dest: arg_cong [where f = length])

lemma run_compiles:
  "afterEmitTap w = Some cl \<Longrightarrow>
     compiles (trace (foldl (fire K inp) w sigs)) = compiles (trace w) + count_list sigs AfterEmit"
proof (induction sigs arbitrary: w)
  case Nil
  show ?case by simp
next
  case (Cons s sigs)
  have tap: "afterEmitTap (fire K inp w s) = Some cl"
    using Cons.prems by simp
  have step: "compiles (trace (fire K inp w s)) = compiles (trace w) + (if s = AfterEmit then 1 else 0)"
    using Cons.prems by (cases s) (simp_all add: afterEmitCallback_compiles fireTimers_compiles)
  show ?case
    using Cons.IH [OF tap] step by simp
qed

lemma run_armed:
  "singleTimer w \<Longrightarrow> afterEmitTap w = Some cl \<Longrightarrow> remotesAndNotDisabled inp cl \<Longrightarrow>
     AfterEmit \<in> set sigs \<or> length (timers w) = 1 \<Longrightarrow>
     length (timers (foldl (fire K inp) w sigs)) = 1"
proof (induction sigs arbitrary: w)
  case Nil
  then show ?case by simp
next
  case (Cons s sigs)
  have st: "singleTimer (fire K inp w s)"
    using Cons.prems(1) by (rule fire_singleTimer)
  have tap: "afterEmitTap (fire K inp w s) = Some cl"
    using Cons.prems(2) by simp
  have "length (timers (fire K inp w s)) = 1 \<or> (s = IntervalElapsed \<and> AfterEmit \<in> set sigs)"
  proof (cases s)
    case AfterEmit
    then show ?thesis
      using Cons.prems(1-3) by (simp add: afterEmitCallback_armed)
  next
    case IntervalElapsed
    then show ?thesis
      using Cons.prems(4) by auto
  qed
  then have "AfterEmit \<in> set sigs \<or> length (timers (fire K inp w s)) = 1"
    by blast
  from Cons.IH [OF st tap Cons.prems(3) this] show ?case by simp
qed

section \<open>Start-up\<close>

lemma nameMissing_Some:
  "\<not> nameMissing f \<Longrightarrow> \<exists>fed n. f = Some fed \<and> name fed = Some n \<and> n \<noteq> []"
  by (auto simp: nameMissing_def opt_def split: option.splits)

lemma gatePasses_fed:
  "gatePasses K inp \<Longrightarrow> \<exists>fed. findFederationPluginOptions (compiler inp) = Some fed"
  using nameMissing_Some by (auto simp: gatePasses_def)

lemma apply_blocked:
  "\<not> gatePasses K inp \<Longrightarrow>
     \<exists>msgs. plugin_apply K inp w = w\<lparr>trace := trace w @ msgs\<rparr> \<and> list_all (\<lambda>e. \<not> isDownload e \<and> \<not> isCompile e \<and> \<not> isTap e \<and> \<not> isSetInterval e) msgs"
  by (auto simp: gatePasses_def plugin_apply_def emit_def)

lemma apply_enabled:
  "gatePasses K inp \<Longrightarrow> findFederationPluginOptions (compiler inp) = Some fed \<Longrightarrow>
   plugin_apply K inp w =
     (let cl = \<lparr>federationPluginOptions = fed, outFile = computeOutFile K (compiler inp)\<rparr>;
          w1 = (if remotesAndNotDisabled inp cl
                then downloadTypesHook inp cl (emit (Log [Str ''Downloading types on startup'']) w)
                else w)
      in if exposes fed \<noteq> None \<and> \<not> isCompilationDisabled inp then
           (if shouldSyncContinuously inp
            then emit (TapAfterEmit PLUGIN_NAME) (w1\<lparr>afterEmitTap := Some cl\<rparr>)
            else compileTypesHook K inp cl (emit (Log [Str ''Compile types on startup only'']) w1))
         else w1)"
  by (auto simp: gatePasses_def plugin_apply_def)

lemma apply_timers:
  "timers (plugin_apply K inp w) = timers w \<and> recompileIntervalId (plugin_apply K inp w) = recompileIntervalId w"
proof (cases "gatePasses K inp")
  case False
  from apply_blocked [OF this] obtain msgs where "plugin_apply K inp w = w\<lparr>trace := trace w @ msgs\<rparr>"
    by blast
  then show ?thesis by simp
next
  case True
  then obtain fed where "findFederationPluginOptions (compiler inp) = Some fed"
    using gatePasses_fed by blast
  with True show ?thesis
    by (simp add: apply_enabled Let_def emit_def)
qed

lemma apply_singleTimer: "singleTimer (plugin_apply K inp init_world)"
proof -
  have "timers (plugin_apply K inp init_world) = []"
    and "recompileIntervalId (plugin_apply K inp init_world) = None"
    using apply_timers [of K inp init_world] by (simp_all add: init_world_def)
  then show ?thesis by (simp add: singleTimer_def)
qed

lemma lifetime_singleTimer: "singleTimer (lifetime K inp sigs)"
  by (simp add: lifetime_def run_singleTimer apply_singleTimer)

lemma lifetime_snoc: "lifetime K inp (sigs @ [s]) = fire K inp (lifetime K inp sigs) s"
  by (simp add: lifetime_def)

lemma lifetime_tap: "afterEmitTap (lifetime K inp sigs) = afterEmitTap (plugin_apply K inp init_world)"
  by (simp add: lifetime_def)

lemma apply_invalid_url:
  "\<not> isEveryUrlValid (isValidUrl K) (Object_values (remoteManifestUrls inp)) \<Longrightarrow>
     plugin_apply K inp w =
       emit (Log [Str ''Plugin disabled''])
         (emit (Warn [Str ''One or more remote manifest URLs are invalid:'',
                      Urls (remoteManifestUrls inp)]) w)"
  by (simp add: plugin_apply_def)

lemma lifetime_idle:
  "afterEmitTap (plugin_apply K inp init_world) = None \<Longrightarrow>
     lifetime K inp sigs = plugin_apply K inp init_world"
proof -
  assume tap: "afterEmitTap (plugin_apply K inp init_world) = None"
  have "timers (plugin_apply K inp init_world) = []"
    using apply_timers [of K inp init_world] by (simp add: init_world_def)
  with tap show ?thesis
    by (simp add: lifetime_def run_idle)
qed

lemma apply_oneshot:
  assumes "\<not> shouldSyncContinuously inp"
  shows "afterEmitTap (plugin_apply K inp init_world) = None
         \<and> \<not> list_ex isTap (trace (plugin_apply K inp init_world))
         \<and> \<not> list_ex isSetInterval (trace (plugin_apply K inp init_world))
         \<and> compiles (trace (plugin_apply K inp init_world)) \<le> 1"
proof (cases "gatePasses K inp")
  case False
  from apply_blocked [OF this, of init_world] obtain msgs
    where m: "plugin_apply K inp init_world = init_world\<lparr>trace := trace init_world @ msgs\<rparr>"
      and n: "list_all (\<lambda>e. \<not> isDownload e \<and> \<not> isCompile e \<and> \<not> isTap e \<and> \<not> isSetInterval e) msgs"
    by blast
  from n have "\<not> list_ex isTap msgs" and "\<not> list_ex isSetInterval msgs" and "filter isCompile msgs = []"
    by (auto simp: list_all_iff list_ex_iff filter_empty_conv)
  with m show ?thesis
    by (simp add: init_world_def compiles_def)
next
  case True
  then obtain fed where "findFederationPluginOptions (compiler inp) = Some fed"
    using gatePasses_fed by blast
  with True assms show ?thesis
    by (simp add: apply_enabled Let_def compileTypesHook_trace init_world_def compiles_def)
qed

lemma not_disabled_option:
  "\<not> isDownloadDisabled K inp \<Longrightarrow> \<not> truthy (opt disableDownladingRemoteTypes (options inp))"
  by (simp add: isDownloadDisabled_def truthy_def split: option.splits)

lemma compiles_two_logs [simp]:
  "compiles (Log a # es) = compiles es" "compiles (DownloadTypes r u # es) = compiles es"
  "compiles (TapAfterEmit n # es) = compiles es" "compiles [] = 0"
  "compiles (CompileTypes x f # es) = Suc (compiles es)"
  "compiles (RewritePaths g f d # es) = compiles es" "compiles (Warn a # es) = compiles es"
  by (simp_all add: compiles_def)

lemma apply_compiles:
  assumes "gatePasses K inp" and "findFederationPluginOptions (compiler inp) = Some fed"
  shows "compiles (trace (plugin_apply K inp init_world)) =
           (if exposes fed \<noteq> None \<and> \<not> isCompilationDisabled inp \<and> \<not> shouldSyncContinuously inp
            then 1 else 0)"
    and "afterEmitTap (plugin_apply K inp init_world) =
           (if exposes fed \<noteq> None \<and> \<not> isCompilationDisabled inp \<and> shouldSyncContinuously inp
            then Some \<lparr>federationPluginOptions = fed, outFile = computeOutFile K (compiler inp)\<rparr>
            else None)"
  using assms
  by (simp_all add: apply_enabled Let_def compileTypesHook_trace init_world_def)

lemma lifetime_compiles_count:
  assumes "gatePasses K inp" and "findFederationPluginOptions (compiler inp) = Some fed"
  shows "compiles (trace (lifetime K inp sigs)) =
           (if exposes fed \<noteq> None \<and> \<not> isCompilationDisabled inp
            then (if shouldSyncContinuously inp then count_list sigs AfterEmit else 1)
            else 0)"
proof (cases "exposes fed \<noteq> None \<and> \<not> isCompilationDisabled inp \<and> shouldSyncContinuously inp")
  case True
  then have tap: "afterEmitTap (plugin_apply K inp init_world) =
      Some \<lparr>federationPluginOptions = fed, outFile = computeOutFile K (compiler inp)\<rparr>"
    using apply_compiles(2) [OF assms] by simp
  have "compiles (trace (plugin_apply K inp init_world)) = 0"
    using True apply_compiles(1) [OF assms] by simp
  with run_compiles [OF tap, of K inp sigs] True show ?thesis
    by (simp add: lifetime_def)
next
  case False
  then have "afterEmitTap (plugin_apply K inp init_world) = None"
    using apply_compiles(2) [OF assms] by simp
  then have "lifetime K inp sigs = plugin_apply K inp init_world"
    by (rule lifetime_idle)
  with False apply_compiles(1) [OF assms] show ?thesis
    by auto
qed

lemma lifetime_grows:
  "\<exists>more. trace (lifetime K inp sigs) = trace (plugin_apply K inp init_world) @ more"
  by (simp add: lifetime_def run_grows)

lemma apply_starts_with_download:
  assumes "gatePasses K inp" and "findFederationPluginOptions (compiler inp) = Some fed"
    and "remotes fed \<noteq> None" and "\<not> truthy (opt disableDownladingRemoteTypes (options inp))"
  shows "\<exists>rest. trace (plugin_apply K inp init_world) =
           Log [Str ''Downloading types on startup'']
           # DownloadTypes (remotes fed) (remoteManifestUrls inp) # rest"
  using assms
  by (simp add: apply_enabled Let_def compileTypesHook_trace init_world_def remotesAndNotDisabled_def)

lemma downloads_cons [simp]:
  "downloads (Log a # es) = downloads es" "downloads (DownloadTypes r u # es) = Suc (downloads es)"
  "downloads (TapAfterEmit n # es) = downloads es" "downloads [] = 0"
  "downloads (CompileTypes x f # es) = downloads es"
  "downloads (RewritePaths g f d # es) = downloads es" "downloads (Warn a # es) = downloads es"
  "downloads (ClearInterval h # es) = downloads es" "downloads (SetInterval i ms # es) = downloads es"
  by (simp_all add: downloads_def)

lemma compiles_cons_timer [simp]:
  "compiles (ClearInterval h # es) = compiles es" "compiles (SetInterval i ms # es) = compiles es"
  by (simp_all add: compiles_def)

lemma apply_downloads:
  assumes "gatePasses K inp" and "findFederationPluginOptions (compiler inp) = Some fed"
  shows "downloads (trace (plugin_apply K inp init_world)) =
           (if remotes fed \<noteq> None \<and> \<not> truthy (opt disableDownladingRemoteTypes (options inp))
            then 1 else 0)"
  using assms
  by (simp add: apply_enabled Let_def compileTypesHook_trace init_world_def remotesAndNotDisabled_def)

section \<open>The output file\<close>

lemma compilesInto_timers:
  "list_all (\<lambda>e. case e of CompileTypes x g \<Rightarrow> g = f | _ \<Rightarrow> True)
     (concat (map (\<lambda>t. [Log (l t), DownloadTypes (r t) (u t)]) ts))"
  by (induction ts) simp_all

lemma fire_compilesInto: "compilesInto f w \<Longrightarrow> compilesInto f (fire K inp w s)"
proof (cases s)
  case AfterEmit
  assume "compilesInto f w"
  with AfterEmit show ?thesis
    by (cases "afterEmitTap w")
       (simp_all add: compilesInto_def afterEmitCallback_trace afterEmitCallback_fields)
next
  case IntervalElapsed
  assume "compilesInto f w"
  with IntervalElapsed show ?thesis
    by (simp add: compilesInto_def fireTimers_trace compilesInto_timers)
qed

lemma run_compilesInto: "compilesInto f w \<Longrightarrow> compilesInto f (foldl (fire K inp) w sigs)"
  by (induction sigs arbitrary: w) (simp_all add: fire_compilesInto)

lemma apply_compilesInto:
  "compilesInto (computeOutFile K (compiler inp)) (plugin_apply K inp init_world)"
proof (cases "gatePasses K inp")
  case False
  from apply_blocked [OF this, of init_world] obtain msgs
    where m: "plugin_apply K inp init_world = init_world\<lparr>trace := trace init_world @ msgs\<rparr>"
      and n: "list_all (\<lambda>e. \<not> isDownload e \<and> \<not> isCompile e \<and> \<not> isTap e \<and> \<not> isSetInterval e) msgs"
    by blast
  have "list_all (\<lambda>e. case e of CompileTypes x g \<Rightarrow> g = computeOutFile K (compiler inp) | _ \<Rightarrow> True) msgs"
    using n by (induction msgs) (auto split: event.splits)
  with m show ?thesis
    by (simp add: compilesInto_def init_world_def)
next
  case True
  then obtain fed where "findFederationPluginOptions (compiler inp) = Some fed"
    using gatePasses_fed by blast
  with True show ?thesis
    by (simp add: apply_enabled Let_def compilesInto_def compileTypesHook_trace init_world_def)
qed

lemma lifetime_compilesInto:
  "CompileTypes x g \<in> set (trace (lifetime K inp sigs)) \<Longrightarrow> g = computeOutFile K (compiler inp)"
proof -
  assume a: "CompileTypes x g \<in> set (trace (lifetime K inp sigs))"
  have "compilesInto (computeOutFile K (compiler inp)) (lifetime K inp sigs)"
    by (simp add: lifetime_def run_compilesInto apply_compilesInto)
  then have "list_all (\<lambda>e. case e of CompileTypes x g \<Rightarrow> g = computeOutFile K (compiler inp) | _ \<Rightarrow> True)
      (trace (lifetime K inp sigs))"
    by (simp add: compilesInto_def)
  with a show ?thesis
    by (auto simp: list_all_iff)
qed

section \<open>Claims\<close>

subsection \<open>C1: the environment marker and the downloads\<close>

text \<open>
  C1. The claim is that with the option \<open>disableDownladingRemoteTypes\<close> absent and
  \<open>DEPLOYMENT_ENV\<close> equal to the marker no download is ever performed. Lines 30-31 do
  compute \<open>isDownloadDisabled\<close> as true in that case, but lines 86 and 103 test the raw
  option instead of that variable. Evaluated on such a configuration (interactive mode, one
  remote, one exposed module): \<open>isDownloadDisabled\<close> holds, yet \<open>apply\<close> downloads at
  start-up, and after one build the interval timer downloads again.
\<close>

theorem env_marker_still_downloads:
  "opt disableDownladingRemoteTypes (options example_marked_env) = None
   \<and> DEPLOYMENT_ENV example_marked_env =
       Some (CLOUDBEDS_DEPLOYMENT_ENV_WITH_DISABLED_REMOTE_TYPES_DOWNLOAD example_collaborators)
   \<and> isDownloadDisabled example_collaborators example_marked_env
   \<and> trace (plugin_apply example_collaborators example_marked_env init_world) =
       [Log [Str ''Downloading types on startup''],
        DownloadTypes (Some [(''app2'', ''app2@http://x/remoteEntry.js'')])
          (Some [(''app2'', ''http://x/manifest.json'')]),
        TapAfterEmit ''ModuleFederationTypesPlugin'']
   \<and> downloads (trace (lifetime example_collaborators example_marked_env [AfterEmit, IntervalElapsed])) = 2"
  by (simp add: example_defs model_defs)

subsection \<open>C2: what a firing of the timer does\<close>

text \<open>
  C2 as stated fails. In the interactive example, after one build a timer is alive; when its
  interval elapses the number of compiles does not grow.
\<close>

theorem timer_fire_compiles_counterexample:
  "timers (lifetime example_collaborators example_input [AfterEmit]) \<noteq> []
   \<and> \<not> (compiles (trace (lifetime example_collaborators example_input [AfterEmit, IntervalElapsed]))
          > compiles (trace (lifetime example_collaborators example_input [AfterEmit])))"
  by (simp add: example_defs model_defs)

text \<open>
  C2, amended. Every firing of the timer callback (lines 89-95) logs one line and calls
  \<open>downloadTypes\<close> once, for all the configured remotes and manifest URLs, and calls no
  compile. In a run, an elapsed interval adds one download per timer alive and no compile;
  the number of compiler calls is unchanged.
\<close>

theorem timer_fire_downloads_only:
  "trace (timerCallback inp cl w) =
     trace w @ [Log [DateNow, Str ''Downloading types every'', Num (effectiveInterval inp), Str ''seconds''],
                DownloadTypes (remotes (federationPluginOptions cl)) (remoteManifestUrls inp)]
   \<and> compileCalls (timerCallback inp cl w) = compileCalls w
   \<and> downloads (trace (lifetime K inp (sigs @ [IntervalElapsed]))) =
       downloads (trace (lifetime K inp sigs)) + length (timers (lifetime K inp sigs))
   \<and> compiles (trace (lifetime K inp (sigs @ [IntervalElapsed]))) = compiles (trace (lifetime K inp sigs))
   \<and> compileCalls (lifetime K inp (sigs @ [IntervalElapsed])) = compileCalls (lifetime K inp sigs)"
  by (simp add: timerCallback_trace lifetime_snoc fireTimers_downloads fireTimers_compiles)

subsection \<open>C3: start-up in continuous mode\<close>

text \<open>
  C3 as stated fails. In the interactive example continuous mode applies and the start-up
  download runs, but \<open>apply\<close> makes no compile.
\<close>

theorem continuous_startup_compile_counterexample:
  "\<not> (shouldSyncContinuously example_input
        \<and> downloads (trace (plugin_apply example_collaborators example_input init_world)) = 1
      \<longrightarrow> compiles (trace (plugin_apply example_collaborators example_input init_world)) = 1)"
  by (simp add: example_defs model_defs)

text \<open>
  C3, amended. In a run that passes the gate, with continuous mode applicable (development
  mode and interval option not \<open>-1\<close>), exposes present and compilation not disabled,
  whether or not download runs: \<open>apply\<close> ends by tapping one callback on \<open>afterEmit\<close>;
  it makes no compile and arms no timer during start-up. The compiles happen on the
  build-completion signals, exactly one per signal.
\<close>

theorem continuous_startup_registers_hook:
  assumes "gatePasses K inp" and "findFederationPluginOptions (compiler inp) = Some fed"
    and "shouldSyncContinuously inp" and "exposes fed = Some x" and "\<not> isCompilationDisabled inp"
  shows "compiles (trace (plugin_apply K inp init_world)) = 0
         \<and> timers (plugin_apply K inp init_world) = []
         \<and> afterEmitTap (plugin_apply K inp init_world) =
             Some \<lparr>federationPluginOptions = fed, outFile = computeOutFile K (compiler inp)\<rparr>
         \<and> (\<exists>pre. trace (plugin_apply K inp init_world) = pre @ [TapAfterEmit PLUGIN_NAME]
               \<and> \<not> list_ex isTap pre)
         \<and> compiles (trace (lifetime K inp sigs)) = count_list sigs AfterEmit"
proof -
  have c0: "compiles (trace (plugin_apply K inp init_world)) = 0"
    using apply_compiles(1) [OF assms(1,2)] assms(3) by simp
  have t0: "timers (plugin_apply K inp init_world) = []"
    using apply_timers [of K inp init_world] by (simp add: init_world_def)
  have tap: "afterEmitTap (plugin_apply K inp init_world) =
      Some \<lparr>federationPluginOptions = fed, outFile = computeOutFile K (compiler inp)\<rparr>"
    using apply_compiles(2) [OF assms(1,2)] assms(3,4,5) by simp
  have tr: "\<exists>pre. trace (plugin_apply K inp init_world) = pre @ [TapAfterEmit PLUGIN_NAME]
      \<and> \<not> list_ex isTap pre"
    using assms by (simp add: apply_enabled Let_def init_world_def)
  have cn: "compiles (trace (lifetime K inp sigs)) = count_list sigs AfterEmit"
    using lifetime_compiles_count [OF assms(1,2), of sigs] assms(3,4,5) by simp
  from c0 t0 tap tr cn show ?thesis by blast
qed

text \<open>
  Scenario C of the spec as the code runs it: download, then the tap; two builds give two
  compiles.
\<close>

theorem continuous_startup_registers_hook_witness:
  "gatePasses example_collaborators example_input
   \<and> findFederationPluginOptions (compiler example_input) = Some example_federation
   \<and> shouldSyncContinuously example_input
   \<and> exposes example_federation = Some [''./Button'']
   \<and> \<not> isCompilationDisabled example_input
   \<and> trace (plugin_apply example_collaborators example_input init_world) =
       [Log [Str ''Downloading types on startup''],
        DownloadTypes (Some [(''app2'', ''app2@http://x/remoteEntry.js'')])
          (Some [(''app2'', ''http://x/manifest.json'')]),
        TapAfterEmit ''ModuleFederationTypesPlugin'']
   \<and> compiles (trace (lifetime example_collaborators example_input [AfterEmit, IntervalElapsed, AfterEmit])) = 2"
  using continuous_startup_registers_hook [of example_collaborators example_input example_federation
      "[''./Button'']" "[AfterEmit, IntervalElapsed, AfterEmit]"]
  by (simp add: example_defs model_defs)

subsection \<open>C4: an invalid manifest URL disables the plugin\<close>

text \<open>
  C4. When some configured manifest URL fails the check, then whatever the other settings
  and whatever signals arrive later, the whole trace of the run is the warning about the
  URLs followed by the log line \<open>Plugin disabled\<close>: no compile and no download is called,
  no callback is tapped and no timer exists.
\<close>

theorem invalid_url_disables_plugin:
  assumes "u \<in> set (Object_values (remoteManifestUrls inp))" and "\<not> isValidUrl K u"
  shows "trace (lifetime K inp sigs) =
           [Warn [Str ''One or more remote manifest URLs are invalid:'', Urls (remoteManifestUrls inp)],
            Log [Str ''Plugin disabled'']]
         \<and> compiles (trace (lifetime K inp sigs)) = 0
         \<and> downloads (trace (lifetime K inp sigs)) = 0
         \<and> afterEmitTap (lifetime K inp sigs) = None
         \<and> timers (lifetime K inp sigs) = []"
proof -
  have bad: "\<not> isEveryUrlValid (isValidUrl K) (Object_values (remoteManifestUrls inp))"
    using assms by (auto simp: isEveryUrlValid_def list_all_iff)
  have ap: "plugin_apply K inp init_world =
      emit (Log [Str ''Plugin disabled''])
        (emit (Warn [Str ''One or more remote manifest URLs are invalid:'',
                     Urls (remoteManifestUrls inp)]) init_world)"
    using bad by (rule apply_invalid_url)
  then have "afterEmitTap (plugin_apply K inp init_world) = None"
    by (simp add: init_world_def)
  then have "lifetime K inp sigs = plugin_apply K inp init_world"
    by (rule lifetime_idle)
  with ap show ?thesis
    by (simp add: init_world_def compiles_def downloads_def)
qed

text \<open>
  Scenario D of the spec: the only remote has the manifest URL \<open>not-a-url\<close>.
\<close>

theorem invalid_url_disables_plugin_witness:
  "''not-a-url'' \<in> set (Object_values (remoteManifestUrls example_bad_url))
   \<and> \<not> isValidUrl example_collaborators ''not-a-url''
   \<and> trace (lifetime example_collaborators example_bad_url [AfterEmit, IntervalElapsed]) =
       [Warn [Str ''One or more remote manifest URLs are invalid:'', Urls (Some [(''app2'', ''not-a-url'')])],
        Log [Str ''Plugin disabled'']]
   \<and> compiles (trace (lifetime example_collaborators example_bad_url [AfterEmit, IntervalElapsed])) = 0
   \<and> downloads (trace (lifetime example_collaborators example_bad_url [AfterEmit, IntervalElapsed])) = 0"
  using invalid_url_disables_plugin [of "''not-a-url''" example_bad_url example_collaborators
      "[AfterEmit, IntervalElapsed]"]
  by (simp add: example_defs Object_values_def compiles_def downloads_def)

subsection \<open>C5: which passes run behind the gate\<close>

text \<open>
  C5. The claim is that behind the gate the download pass runs iff remotes are present and
  download is not disabled. The gate itself (line 41) takes download as disabled when the
  option is absent and \<open>DEPLOYMENT_ENV\<close> equals the marker; line 103 tests the raw option.
  Evaluated on a one-shot build with the marker set and the option absent: the
  configuration passes the gate, download is disabled, and the download pass runs all the
  same (and so does the one compile).
\<close>

theorem gate_download_ignores_env_marker:
  "gatePasses example_collaborators example_marked_production
   \<and> isDownloadDisabled example_collaborators example_marked_production
   \<and> findFederationPluginOptions (compiler example_marked_production) = Some example_federation
   \<and> downloads (trace (plugin_apply example_collaborators example_marked_production init_world)) = 1
   \<and> compiles (trace (plugin_apply example_collaborators example_marked_production init_world)) = 1"
  by (simp add: example_defs model_defs)

subsection \<open>C6: the download comes before the first compile\<close>

text \<open>
  C6. In a run that passes the gate, with remotes and exposes both configured and download
  not disabled, the trace of the whole run (start-up and any signals after it) begins with
  the log line of the start-up download and the awaited call of \<open>downloadTypes\<close>; every
  compile comes after them. What follows holds no compile when compilation is disabled, one
  compile in a one-shot run, and one compile per build completed in continuous mode.
\<close>

theorem download_before_compile:
  assumes "gatePasses K inp" and "findFederationPluginOptions (compiler inp) = Some fed"
    and "remotes fed = Some r" and "exposes fed = Some x"
    and "\<not> isDownloadDisabled K inp"
  shows "\<exists>post. trace (lifetime K inp sigs) =
           Log [Str ''Downloading types on startup'']
           # DownloadTypes (Some r) (remoteManifestUrls inp) # post
         \<and> compiles post =
             (if isCompilationDisabled inp then 0
              else if shouldSyncContinuously inp then count_list sigs AfterEmit else 1)"
proof -
  have nt: "\<not> truthy (opt disableDownladingRemoteTypes (options inp))"
    using assms(5) by (rule not_disabled_option)
  obtain rest where rest: "trace (plugin_apply K inp init_world) =
      Log [Str ''Downloading types on startup''] # DownloadTypes (remotes fed) (remoteManifestUrls inp) # rest"
    using apply_starts_with_download [OF assms(1,2) _ nt] assms(3) by auto
  obtain more where more: "trace (lifetime K inp sigs) = trace (plugin_apply K inp init_world) @ more"
    using lifetime_grows by blast
  have tr: "trace (lifetime K inp sigs) =
      Log [Str ''Downloading types on startup''] # DownloadTypes (Some r) (remoteManifestUrls inp) # (rest @ more)"
    using rest more assms(3) by simp
  have "compiles (trace (lifetime K inp sigs)) =
      (if isCompilationDisabled inp then 0
       else if shouldSyncContinuously inp then count_list sigs AfterEmit else 1)"
    using lifetime_compiles_count [OF assms(1,2), of sigs] assms(4) by simp
  then have "compiles (rest @ more) =
      (if isCompilationDisabled inp then 0
       else if shouldSyncContinuously inp then count_list sigs AfterEmit else 1)"
    by (simp only: tr compiles_two_logs)
  with tr show ?thesis by blast
qed

text \<open>
  The one-shot example: download, then the compile of start-up.
\<close>

theorem download_before_compile_witness:
  "gatePasses example_collaborators example_production
   \<and> findFederationPluginOptions (compiler example_production) = Some example_federation
   \<and> remotes example_federation = Some [(''app2'', ''app2@http://x/remoteEntry.js'')]
   \<and> exposes example_federation = Some [''./Button'']
   \<and> \<not> isDownloadDisabled example_collaborators example_production
   \<and> trace (lifetime example_collaborators example_production [AfterEmit]) =
       [Log [Str ''Downloading types on startup''],
        DownloadTypes (Some [(''app2'', ''app2@http://x/remoteEntry.js'')])
          (Some [(''app2'', ''http://x/manifest.json'')]),
        Log [Str ''Compile types on startup only''],
        CompileTypes (Some [''./Button'']) ''/srv/build/types/index.d.ts'',
        RewritePaths example_federation ''/srv/build/types/index.d.ts'' ''declare module'']"
  using download_before_compile [of example_collaborators example_production example_federation
      "[(''app2'', ''app2@http://x/remoteEntry.js'')]" "[''./Button'']" "[AfterEmit]"]
  by (simp add: example_defs model_defs)

subsection \<open>C7: one timer at most\<close>

text \<open>
  C7. After \<open>apply\<close> and any sequence of signals the timers alive are exactly the one held
  in \<open>recompileIntervalId\<close>, hence at most one; an elapsed interval adds as many downloads
  as there are timers alive. Every arming (line 87-88) first calls \<open>clearInterval\<close> on the
  handle held, then \<open>setInterval\<close>, and leaves the old timer dead and the new one alive.
  When the callback is tapped, remotes are present and the download option is not set, then
  after any signals with at least one completed build among them exactly one timer is alive
  and an elapsed interval gives exactly one download, however many builds re-armed it.
\<close>

theorem single_timer_invariant:
  "singleTimer (lifetime K inp sigs)
   \<and> length (timers (lifetime K inp sigs)) \<le> 1
   \<and> downloads (trace (lifetime K inp (sigs @ [IntervalElapsed]))) =
       downloads (trace (lifetime K inp sigs)) + length (timers (lifetime K inp sigs))
   \<and> (remotesAndNotDisabled inp cl \<longrightarrow>
        (\<exists>rest. trace (compileTypesContinuouslyHook K inp cl w) =
           trace w @ ClearInterval (recompileIntervalId w)
             # SetInterval (nextTimerId w) (1000 * effectiveInterval inp) # rest)
        \<and> timers (compileTypesContinuouslyHook K inp cl w) =
            filter (\<lambda>t. Some (fst t) \<noteq> recompileIntervalId w) (timers w) @ [(nextTimerId w, cl)])
   \<and> (afterEmitTap (plugin_apply K inp init_world) = Some cl \<and> remotesAndNotDisabled inp cl
        \<and> AfterEmit \<in> set sigs \<longrightarrow>
        length (timers (lifetime K inp sigs)) = 1
        \<and> downloads (trace (lifetime K inp (sigs @ [IntervalElapsed]))) =
            Suc (downloads (trace (lifetime K inp sigs))))"
proof -
  have inv: "singleTimer (lifetime K inp sigs)"
    by (rule lifetime_singleTimer)
  then have le: "length (timers (lifetime K inp sigs)) \<le> 1"
    by (rule singleTimer_length)
  have dl: "downloads (trace (lifetime K inp (sigs @ [IntervalElapsed]))) =
       downloads (trace (lifetime K inp sigs)) + length (timers (lifetime K inp sigs))"
    by (simp add: lifetime_snoc fireTimers_downloads)
  have arm: "(\<exists>rest. trace (compileTypesContinuouslyHook K inp cl w) =
           trace w @ ClearInterval (recompileIntervalId w)
             # SetInterval (nextTimerId w) (1000 * effectiveInterval inp) # rest)
        \<and> timers (compileTypesContinuouslyHook K inp cl w) =
            filter (\<lambda>t. Some (fst t) \<noteq> recompileIntervalId w) (timers w) @ [(nextTimerId w, cl)]"
    if "remotesAndNotDisabled inp cl"
    using that by (auto simp: hook_trace hook_fields split: option.splits)
  have one: "length (timers (lifetime K inp sigs)) = 1"
    if "afterEmitTap (plugin_apply K inp init_world) = Some cl" and "remotesAndNotDisabled inp cl"
      and "AfterEmit \<in> set sigs"
    using run_armed [OF apply_singleTimer that(1,2), of sigs K] that(3)
    by (simp add: lifetime_def)
  from inv le dl arm one show ?thesis
    by simp
qed

text \<open>
  Three builds in a row: one timer alive (the third), and one download when the interval
  elapses; arming after two builds replaces timer 1 by timer 2.
\<close>

theorem single_timer_invariant_witness:
  "remotesAndNotDisabled example_input
      \<lparr>federationPluginOptions = example_federation, outFile = ''/srv/build/types/index.d.ts''\<rparr>
   \<and> afterEmitTap (plugin_apply example_collaborators example_input init_world) =
       Some \<lparr>federationPluginOptions = example_federation, outFile = ''/srv/build/types/index.d.ts''\<rparr>
   \<and> AfterEmit \<in> set [AfterEmit, AfterEmit, AfterEmit]
   \<and> timers (lifetime example_collaborators example_input [AfterEmit, AfterEmit, AfterEmit]) =
       [(2, \<lparr>federationPluginOptions = example_federation, outFile = ''/srv/build/types/index.d.ts''\<rparr>)]
   \<and> downloads (trace (lifetime example_collaborators example_input [AfterEmit, AfterEmit, AfterEmit])) = 1
   \<and> downloads (trace (lifetime example_collaborators example_input
        ([AfterEmit, AfterEmit, AfterEmit] @ [IntervalElapsed]))) = 2
   \<and> timers (lifetime example_collaborators example_input [AfterEmit, AfterEmit]) =
       [(1, \<lparr>federationPluginOptions = example_federation, outFile = ''/srv/build/types/index.d.ts''\<rparr>)]
   \<and> timers (compileTypesContinuouslyHook example_collaborators example_input
        \<lparr>federationPluginOptions = example_federation, outFile = ''/srv/build/types/index.d.ts''\<rparr>
        (lifetime example_collaborators example_input [AfterEmit, AfterEmit])) =
       [(2, \<lparr>federationPluginOptions = example_federation, outFile = ''/srv/build/types/index.d.ts''\<rparr>)]"
  using single_timer_invariant [of example_collaborators example_input "[AfterEmit, AfterEmit, AfterEmit]"
      "\<lparr>federationPluginOptions = example_federation, outFile = ''/srv/build/types/index.d.ts''\<rparr>"
      "lifetime example_collaborators example_input [AfterEmit, AfterEmit]"]
  by (simp add: example_defs model_defs)

subsection \<open>C8: a failed compile is logged and not rewritten\<close>

text \<open>
  C8. For every call of \<open>compileTypesHook\<close>, whatever the state and the number of the call:
  the rewrite of import paths is called iff the compiler reports success; when it reports
  failure the hook adds to the trace the call of the compiler and one warning with the
  logger hint, nothing else, and it returns (the function is total, the timers and the
  tapped callback are as before).
\<close>

theorem compile_failure_skips_rewrite:
  "\<exists>new. trace (compileTypesHook K inp cl w) = trace w @ new
     \<and> (list_ex isRewrite new \<longleftrightarrow>
          isSuccess (compileTypes K (compileCalls w) (exposes (federationPluginOptions cl)) (outFile cl)))
     \<and> (\<not> isSuccess (compileTypes K (compileCalls w) (exposes (federationPluginOptions cl)) (outFile cl)) \<longrightarrow>
          new = [CompileTypes (exposes (federationPluginOptions cl)) (outFile cl),
                 Warn [Str ''Failed to compile types for exposed modules.'',
                       Hint (getLoggerHint K (compiler inp))]])
     \<and> timers (compileTypesHook K inp cl w) = timers w
     \<and> afterEmitTap (compileTypesHook K inp cl w) = afterEmitTap w"
  by (simp add: compileTypesHook_trace)

text \<open>
  The second call of the example compiler fails: the hook logs the warning and does not
  rewrite.
\<close>

theorem compile_failure_skips_rewrite_witness:
  "\<not> isSuccess (compileTypes example_collaborators 1 (Some [''./Button'']) ''out/index.d.ts'')
   \<and> trace (compileTypesHook example_collaborators example_input
        \<lparr>federationPluginOptions = example_federation, outFile = ''out/index.d.ts''\<rparr>
        (init_world\<lparr>compileCalls := 1\<rparr>))
      = [CompileTypes (Some [''./Button'']) ''out/index.d.ts'',
         Warn [Str ''Failed to compile types for exposed modules.'', Hint ''hint'']]"
  using compile_failure_skips_rewrite [of example_collaborators example_input
      "\<lparr>federationPluginOptions = example_federation, outFile = ''out/index.d.ts''\<rparr>"
      "init_world\<lparr>compileCalls := 1\<rparr>"]
  by (simp add: example_defs init_world_def)

subsection \<open>C9: the idle interval and its sentinel\<close>

text \<open>
  C9. The interval is the option when it is there and not zero, and 60 when the option is
  missing or zero. When the option is \<open>-1\<close>, continuous mode is off: whatever signals
  arrive, no callback is tapped on \<open>afterEmit\<close>, no timer is ever created, the run is over
  with \<open>apply\<close>, and the compiler is called at most once.
\<close>

theorem idle_interval_and_sentinel:
  "(opt downloadTypesWhenIdleIntervalInSeconds (options inp) = Some n \<and> n \<noteq> 0 \<longrightarrow>
      effectiveInterval inp = n)
   \<and> (opt downloadTypesWhenIdleIntervalInSeconds (options inp) = None
        \<or> opt downloadTypesWhenIdleIntervalInSeconds (options inp) = Some 0 \<longrightarrow>
      effectiveInterval inp = 60)
   \<and> (opt downloadTypesWhenIdleIntervalInSeconds (options inp) = Some (- 1) \<longrightarrow>
      \<not> shouldSyncContinuously inp
      \<and> afterEmitTap (lifetime K inp sigs) = None
      \<and> timers (lifetime K inp sigs) = []
      \<and> \<not> list_ex isTap (trace (lifetime K inp sigs))
      \<and> \<not> list_ex isSetInterval (trace (lifetime K inp sigs))
      \<and> compiles (trace (lifetime K inp sigs)) \<le> 1
      \<and> lifetime K inp sigs = plugin_apply K inp init_world)"
proof -
  have a: "opt downloadTypesWhenIdleIntervalInSeconds (options inp) = Some n \<and> n \<noteq> 0 \<longrightarrow>
      effectiveInterval inp = n"
    by (simp add: effectiveInterval_def js_or_number_def)
  have b: "opt downloadTypesWhenIdleIntervalInSeconds (options inp) = None
        \<or> opt downloadTypesWhenIdleIntervalInSeconds (options inp) = Some 0 \<longrightarrow>
      effectiveInterval inp = 60"
    by (auto simp: effectiveInterval_def js_or_number_def DEFAULT_DOWNLOAD_TYPES_INTERVAL_IN_SECONDS_def)
  have c: "\<not> shouldSyncContinuously inp
      \<and> afterEmitTap (lifetime K inp sigs) = None
      \<and> timers (lifetime K inp sigs) = []
      \<and> \<not> list_ex isTap (trace (lifetime K inp sigs))
      \<and> \<not> list_ex isSetInterval (trace (lifetime K inp sigs))
      \<and> compiles (trace (lifetime K inp sigs)) \<le> 1
      \<and> lifetime K inp sigs = plugin_apply K inp init_world"
    if s: "opt downloadTypesWhenIdleIntervalInSeconds (options inp) = Some (- 1)"
  proof -
    have ns: "\<not> shouldSyncContinuously inp"
      using s by (simp add: shouldSyncContinuously_def)
    note one = apply_oneshot [OF ns, of K]
    then have eq: "lifetime K inp sigs = plugin_apply K inp init_world"
      by (simp add: lifetime_idle)
    have "timers (plugin_apply K inp init_world) = []"
      using apply_timers [of K inp init_world] by (simp add: init_world_def)
    with ns one eq show ?thesis by simp
  qed
  from a b c show ?thesis by blast
qed

text \<open>
  An option of 5 gives 5, no option gives 60, and with \<open>-1\<close> two builds and an elapsed
  interval leave the one compile of start-up.
\<close>

theorem idle_interval_and_sentinel_witness:
  "opt downloadTypesWhenIdleIntervalInSeconds (options example_dev_server) = Some 5
   \<and> effectiveInterval example_dev_server = 5
   \<and> opt downloadTypesWhenIdleIntervalInSeconds (options example_input) = None
   \<and> effectiveInterval example_input = 60
   \<and> opt downloadTypesWhenIdleIntervalInSeconds (options example_sentinel) = Some (- 1)
   \<and> compiles (trace (lifetime example_collaborators example_sentinel [AfterEmit, IntervalElapsed, AfterEmit])) = 1
   \<and> timers (lifetime example_collaborators example_sentinel [AfterEmit, IntervalElapsed, AfterEmit]) = []
   \<and> afterEmitTap (lifetime example_collaborators example_sentinel [AfterEmit, IntervalElapsed, AfterEmit]) = None"
  using idle_interval_and_sentinel [of example_dev_server 5 example_collaborators "[]"]
    idle_interval_and_sentinel [of example_input 5 example_collaborators "[]"]
    idle_interval_and_sentinel [of example_sentinel "- 1" example_collaborators "[AfterEmit, IntervalElapsed, AfterEmit]"]
  by (simp add: example_defs model_defs)

subsection \<open>C10: where the declarations are written\<close>

text \<open>
  C10. Every compile of a run, at start-up or after any signals, writes to the one path
  computed at line 59, and that path is \<open>path.join\<close> of a directory, the emitted-types
  directory and \<open>index.d.ts\<close>. The directory is the dev-server static directory when it is
  set (there and not the empty string), else the output path of the build when that is set,
  else the default \<open>DIR_DIST\<close>: the dev-server directory comes first.
\<close>

theorem outFile_precedence:
  "(opt directory (opt static (devServer c)) = Some d \<and> d \<noteq> [] \<longrightarrow>
      computeOutFile K c = path_join K [d, DIR_EMITTED_TYPES K, ''index.d.ts''])
   \<and> (\<not> isSet (opt directory (opt static (devServer c))) \<and> opt path (output_opts c) = Some p \<and> p \<noteq> [] \<longrightarrow>
      computeOutFile K c = path_join K [p, DIR_EMITTED_TYPES K, ''index.d.ts''])
   \<and> (\<not> isSet (opt directory (opt static (devServer c))) \<and> \<not> isSet (opt path (output_opts c)) \<longrightarrow>
      computeOutFile K c = path_join K [DIR_DIST K, DIR_EMITTED_TYPES K, ''index.d.ts''])"
  by (auto simp: computeOutFile_def distPath_def js_or_string_def isSet_def split: option.splits)

text \<open>
  With both directories configured the dev-server directory is used; with the output path
  alone, the output path; with neither, \<open>dist\<close>.
\<close>

theorem outFile_precedence_witness:
  "opt directory (opt static (devServer (compiler example_dev_server))) = Some ''/srv/public''
   \<and> opt path (output_opts (compiler example_dev_server)) = Some ''/srv/build''
   \<and> computeOutFile example_collaborators (compiler example_dev_server) = ''/srv/public/types/index.d.ts''
   \<and> \<not> isSet (opt directory (opt static (devServer (compiler example_input))))
   \<and> computeOutFile example_collaborators (compiler example_input) = ''/srv/build/types/index.d.ts''
   \<and> computeOutFile example_collaborators ((compiler example_input)\<lparr>output_opts := None\<rparr>) = ''dist/types/index.d.ts''"
  using outFile_precedence [of "compiler example_dev_server" "''/srv/public''" example_collaborators "''/srv/build''"]
    outFile_precedence [of "compiler example_input" "''''" example_collaborators "''/srv/build''"]
    outFile_precedence [of "(compiler example_input)\<lparr>output_opts := None\<rparr>" "''''" example_collaborators "''''"]
  by (simp add: example_defs opt_def isSet_def)

end
